theory Spec2Isabelle
  imports Main
begin

section \<open>JavaScript values, errors and outcomes\<close>

text \<open>
  The values that flow through \<^verbatim>\<open>src/IDBIndex.js\<close>: \<^verbatim>\<open>undefined\<close>, \<^verbatim>\<open>null\<close>, arrays,
  \<^verbatim>\<open>IDBKeyRange\<close> instances (lower, upper, lowerOpen, upperOpen) and every other value
  (numbers, strings, dates, binary data, plain objects), which the index code never
  inspects itself and which is therefore an atom of an arbitrary type.
\<close>

datatype 'a jsval =
    JUndefined
  | JNull
  | JAtom 'a
  | JArray "'a jsval list"
  | JKeyRange "'a jsval" "'a jsval" bool bool

text \<open>
  The exceptions the code raises. \<open>SQLError\<close> is the raw error object of the storage
  backend, handed on unwrapped by \<^verbatim>\<open>__renameIndex\<close> and \<^verbatim>\<open>executeFetchIndexData\<close>.
\<close>

datatype error =
    TypeError
  | InvalidStateError
  | ConstraintError
  | DataError
  | UnknownError
  | SQLError

text \<open>
  A step run by the transaction queue ends by calling its \<^verbatim>\<open>success\<close> continuation, by
  calling its \<^verbatim>\<open>failure\<close> continuation, or by calling neither: an exception escaped a
  storage callback, or a statement failed where no error callback was given.
\<close>

datatype 'r outcome = Success 'r | Failure error | NoContinuation

datatype opType = OpValue | OpKey | OpCount

datatype keypath = KPString string | KPArray "string list"

datatype sqltok = Tok string | TokNum nat

datatype txmode = ReadOnly | ReadWrite | VersionChange

type_synonym row = "string \<Rightarrow> string option"

text \<open>\<^verbatim>\<open>range == null\<close>: loose equality holds for \<^verbatim>\<open>null\<close> and \<^verbatim>\<open>undefined\<close> only.\<close>

fun isNullish :: "'a jsval \<Rightarrow> bool" where
  "isNullish JUndefined = True"
| "isNullish JNull = True"
| "isNullish _ = False"

text \<open>\<^verbatim>\<open>arguments[i]\<close>, and the destructuring \<^verbatim>\<open>[query, count] = arguments\<close>: a missing
  argument reads as \<^verbatim>\<open>undefined\<close>.\<close>

definition argument :: "'a jsval list \<Rightarrow> nat \<Rightarrow> 'a jsval" where
  "argument args i = (if i < length args then args ! i else JUndefined)"

text \<open>\<^verbatim>\<open>s.slice(1, -1)\<close> on a string: without its first and its last character.\<close>

definition slice1 :: "string \<Rightarrow> string" where
  "slice1 s = butlast (tl s)"

section \<open>The objects: index, object store, transaction\<close>

text \<open>
  An \<^verbatim>\<open>IDBIndex\<close> instance as \<^verbatim>\<open>IDBIndex.__createInstance\<close> builds it. The flags
  \<^verbatim>\<open>__deleted\<close>, \<^verbatim>\<open>__pendingDelete\<close>, \<^verbatim>\<open>__pendingCreate\<close> and \<^verbatim>\<open>__recreated\<close> are only
  ever tested for truthiness, so an absent property is \<open>False\<close>; \<^verbatim>\<open>__pendingName\<close> is
  tested with \<^verbatim>\<open>in\<close>, so it is an option.
\<close>

record idb_index =
  i_name :: string
  i_originalName :: string
  i_keyPath :: keypath
  i_multiEntry :: bool
  i_unique :: bool
  i_deleted :: bool
  i_pendingDelete :: bool
  i_pendingCreate :: bool
  i_recreated :: bool
  i_pendingName :: "string option"
  i_objectStore :: nat

text \<open>
  The properties of an \<^verbatim>\<open>IDBObjectStore\<close> that the index code reads and writes.
  \<open>s_indexes\<close> is \<^verbatim>\<open>__indexes\<close>, \<open>s_indexHandles\<close> is \<^verbatim>\<open>__indexHandles\<close>; both map a
  name to the address of an index object.
\<close>

record idb_store =
  s_name :: string
  s_pendingName :: "string option"
  s_deleted :: bool
  s_pendingDelete :: bool
  s_pendingCreate :: bool
  s_autoIncrement :: bool
  s_indexNames :: "string list"
  s_indexes :: "string \<Rightarrow> nat option"
  s_indexHandles :: "string \<Rightarrow> nat option"
  s_transaction :: "nat option"
  s_cursors :: "nat list"

text \<open>The arguments \<^verbatim>\<open>buildFetchIndexDataSQL\<close> returns for \<^verbatim>\<open>executeFetchIndexData\<close>.\<close>

record 'a fetchArgs =
  fa_unboundedDisallowed :: bool
  fa_index :: nat
  fa_hasKey :: bool
  fa_range :: "'a jsval"
  fa_opType :: opType
  fa_multiChecks :: bool
  fa_sql :: "sqltok list"
  fa_sqlValues :: "string list"

text \<open>
  The closures handed to the transaction queue, as the variables each one captures.
  \<open>QFetch\<close>: the request step of \<^verbatim>\<open>__fetchIndexData\<close> (count, fetchArgs).
  \<open>QCreateIndex\<close>: \<^verbatim>\<open>createIndex\<close> of \<^verbatim>\<open>__createIndex\<close> (store, index, indexName,
  storeName, idx, indexHandle).
  \<open>QRenameIndex\<close>: \<^verbatim>\<open>renameIndex\<close> of \<^verbatim>\<open>__renameIndex\<close> (store, oldName, newName,
  colInfoToPreserveArr, storeName, and for the callback \<^verbatim>\<open>cb\<close> of the name setter the
  store it updates the index list of and the store handle).
\<close>

datatype 'a queued =
    QFetch "nat option" "'a fetchArgs"
  | QCreateIndex nat nat string string "nat option" nat
  | QRenameIndex nat string string "(string \<times> string) list" string "(nat \<times> nat) option"

record 'a idb_tx =
  t_mode :: txmode
  t_active :: bool
  t_errored :: bool
  t_storeHandles :: "string \<Rightarrow> nat option"
  t_queue :: "'a queued list"

section \<open>The storage backend\<close>

text \<open>
  The persisted entry of one index in the \<^verbatim>\<open>indexList\<close> of \<^verbatim>\<open>__sys__\<close>, as
  \<^verbatim>\<open>__updateIndexList\<close> writes it; the list stands for the JSON text.
\<close>

record indexProps =
  ip_columnName :: string
  ip_keyPath :: keypath
  ip_unique :: bool
  ip_multiEntry :: bool
  ip_deleted :: bool

type_synonym indexList = "(string \<times> indexProps) list"

text \<open>
  A table has named columns and rows; a row maps a column name to its text, \<open>None\<close>
  being SQL \<^verbatim>\<open>NULL\<close> (or a column the row does not have). \<open>d_sys\<close> is the \<^verbatim>\<open>indexList\<close>
  column of \<^verbatim>\<open>__sys__\<close>, by store name; \<open>d_sqlIndexes\<close> are the SQLite indexes, each with
  the table it is on.
\<close>

record table =
  tb_cols :: "string list"
  tb_rows :: "row list"

record database =
  d_tables :: "string \<Rightarrow> table option"
  d_sys :: "string \<Rightarrow> indexList option"
  d_sqlIndexes :: "(string \<times> string) list"

text \<open>
  The statements \<^verbatim>\<open>__createIndex\<close>, \<^verbatim>\<open>__updateIndexList\<close> and \<^verbatim>\<open>__renameIndex\<close> pass to
  \<^verbatim>\<open>tx.executeSql\<close>, with the names as they appear in the SQL text:
  \<^item> \<open>AlterTableAdd t c\<close>: \<^verbatim>\<open>ALTER TABLE t ADD c BLOB\<close>
  \<^item> \<open>CreateIndexIfNotExists n t c\<close>: \<^verbatim>\<open>CREATE INDEX IF NOT EXISTS n ON t(c)\<close>
  \<^item> \<open>CreateIndex n t c\<close>: \<^verbatim>\<open>CREATE INDEX n ON t(c)\<close>
  \<^item> \<open>DropIndexIfExists n\<close>: \<^verbatim>\<open>DROP INDEX IF EXISTS n\<close>
  \<^item> \<open>UpdateSysIndexList l s\<close>: \<^verbatim>\<open>UPDATE __sys__ SET "indexList" = ? WHERE "name" = ?\<close>
  \<^item> \<open>SelectKeyValue t\<close>: \<^verbatim>\<open>SELECT "key", "value" FROM t\<close>
  \<^item> \<open>UpdateSet t c v k\<close>: \<^verbatim>\<open>UPDATE t SET c = ? WHERE "key" = ?\<close>
  \<^item> \<open>CreateTable t cs\<close>: \<^verbatim>\<open>CREATE TABLE t(cs)\<close>, each column with its type
  \<^item> \<open>InsertIntoSelect t cs s ds\<close>: \<^verbatim>\<open>INSERT INTO t(cs) SELECT ds FROM s\<close>
  \<^item> \<open>DropTable t\<close>: \<^verbatim>\<open>DROP TABLE t\<close>
  \<^item> \<open>AlterTableRename t s\<close>: \<^verbatim>\<open>ALTER TABLE t RENAME TO s\<close>
\<close>

datatype sql =
    AlterTableAdd string string
  | CreateIndexIfNotExists string string string
  | CreateIndex string string string
  | DropIndexIfExists string
  | UpdateSysIndexList indexList string
  | SelectKeyValue string
  | UpdateSet string string string "string option"
  | CreateTable string "(string \<times> string) list"
  | InsertIntoSelect string "string list" string "string list"
  | DropTable string
  | AlterTableRename string string

section \<open>The collaborators\<close>

text \<open>
  The modules \<^verbatim>\<open>Key\<close>, \<^verbatim>\<open>Sca\<close>, \<^verbatim>\<open>util\<close>, \<^verbatim>\<open>IDBKeyRange\<close> and \<^verbatim>\<open>CFG\<close> are imported by
  \<^verbatim>\<open>IDBIndex.js\<close>; the index code is modelled for every behaviour of theirs, so each is
  a parameter. \<open>None\<close> is a thrown exception; where the exception reaches the caller of
  an index method, the collaborator returns the error itself.
  \<^item> \<open>Key_encode k inArray\<close>: \<^verbatim>\<open>Key.encode\<close>
  \<^item> \<open>Key_decode\<close>: \<^verbatim>\<open>Key.decode\<close>, on a column read from a row
  \<^item> \<open>Key_isMultiEntryMatch\<close>: \<^verbatim>\<open>Key.isMultiEntryMatch\<close>
  \<^item> \<open>Key_extract\<close>: \<^verbatim>\<open>Key.extractKeyValueDecodedFromValueUsingKeyPath\<close>, returning
    \<^verbatim>\<open>invalid\<close>, \<^verbatim>\<open>failure\<close> and \<^verbatim>\<open>value\<close>
  \<^item> \<open>Sca_decode\<close>: \<^verbatim>\<open>Sca.decode\<close>
  \<^item> \<open>enforceRange\<close>: \<^verbatim>\<open>util.enforceRange(count, 'unsigned long')\<close>
  \<^item> \<open>some_includes range rowKey\<close>:
    \<^verbatim>\<open>range.some((check) => rowKey.includes(check))\<close>, JavaScript's own array methods on
    two values
  \<^item> \<open>setSQLForKeyRange range nullDisallowed col\<close>: \<^verbatim>\<open>convertValueToKeyRange\<close> followed by
    \<^verbatim>\<open>setSQLForKeyRange\<close>, returning the tokens and values they append
  \<^item> \<open>runSelect sql values db\<close>: the backend's answer to the \<^verbatim>\<open>SELECT\<close> text of
    \<^verbatim>\<open>executeFetchIndexData\<close>, the rows or an error
  \<^item> the escaping functions of \<^verbatim>\<open>util\<close>, and \<^verbatim>\<open>CFG.useSQLiteIndexes\<close>
\<close>

record 'a env =
  Key_encode :: "'a jsval \<Rightarrow> bool \<Rightarrow> error + string"
  Key_decode :: "string option \<Rightarrow> 'a jsval option"
  Key_isMultiEntryMatch :: "string \<Rightarrow> string option \<Rightarrow> bool"
  Key_extract :: "'a jsval \<Rightarrow> keypath \<Rightarrow> bool \<Rightarrow> (bool \<times> bool \<times> 'a jsval) option"
  Sca_decode :: "string option \<Rightarrow> 'a jsval option"
  enforceRange :: "'a jsval \<Rightarrow> error + nat"
  some_includes :: "'a jsval \<Rightarrow> 'a jsval \<Rightarrow> bool option"
  setSQLForKeyRange :: "'a jsval \<Rightarrow> bool \<Rightarrow> string \<Rightarrow> error + (sqltok list \<times> string list)"
  runSelect :: "sqltok list \<Rightarrow> string list \<Rightarrow> database \<Rightarrow> error + row list"
  sqlQuote :: "string \<Rightarrow> string"
  sqlLIKEEscape :: "string \<Rightarrow> string"
  escapeStoreNameForSQL :: "string \<Rightarrow> string"
  escapeIndexNameForSQL :: "string \<Rightarrow> string"
  escapeIndexNameForSQLKeyColumn :: "string \<Rightarrow> string"
  escapeSQLiteStatement :: "string \<Rightarrow> string"
  unescapeSQLiteResponse :: "string option \<Rightarrow> string option"
  useSQLiteIndexes :: bool

section \<open>The state\<close>

text \<open>
  The heap of objects, by address, and the database. Every address holds an object, so
  a reference is never dangling; \<open>h_next\<close> is the address the next \<^verbatim>\<open>new IDBIndex()\<close>
  gets.
\<close>

record 'a state =
  h_indexes :: "nat \<Rightarrow> idb_index"
  h_stores :: "nat \<Rightarrow> idb_store"
  h_txs :: "nat \<Rightarrow> 'a idb_tx"
  h_next :: nat
  h_db :: database

section \<open>State checks\<close>

text \<open>
  Modelled from the spec: \<^verbatim>\<open>IDBTransaction.__assertVersionChange\<close>, whose file
  \<^verbatim>\<open>IDBTransaction.js\<close> is absent. Section 4.2: rename "fails with InvalidStateError
  ... if not inside an active structural (version-change) transaction".
\<close>

definition IDBTransaction_assertVersionChange :: "'a state \<Rightarrow> nat option \<Rightarrow> error + unit" where
  "IDBTransaction_assertVersionChange st tx =
     (case tx of
        None \<Rightarrow> Inl InvalidStateError
      | Some t \<Rightarrow> if t_mode (h_txs st t) = VersionChange then Inr () else Inl InvalidStateError)"

text \<open>
  Modelled from the spec: \<^verbatim>\<open>IDBTransaction.__assertActive\<close>, absent likewise.
  Section 4.2: "fails with InvalidStateError ... if the owning transaction is not in the
  active phase".
\<close>

definition IDBTransaction_assertActive :: "'a state \<Rightarrow> nat option \<Rightarrow> error + unit" where
  "IDBTransaction_assertActive st tx =
     (case tx of
        None \<Rightarrow> Inl InvalidStateError
      | Some t \<Rightarrow> if t_active (h_txs st t) then Inr () else Inl InvalidStateError)"

text \<open>
  Modelled from the spec: \<^verbatim>\<open>IDBObjectStore.__invalidStateIfDeleted\<close>, whose file
  \<^verbatim>\<open>IDBObjectStore.js\<close> is absent. Section 4.2: an operation "against a descriptor that
  is deleted, pendingDelete, or pendingCreate on an errored transaction fails with
  InvalidStateError". It reads these properties of the object it is given:
  \<^verbatim>\<open>__deleted\<close>, \<^verbatim>\<open>__pendingDelete\<close>, \<^verbatim>\<open>__pendingCreate\<close> and whether its \<^verbatim>\<open>transaction\<close>
  is errored.
\<close>

definition IDBObjectStore_invalidStateIfDeleted :: "bool \<Rightarrow> bool \<Rightarrow> bool \<Rightarrow> bool \<Rightarrow> error + unit" where
  "IDBObjectStore_invalidStateIfDeleted deleted pendingDelete pendingCreate txErrored =
     (if deleted \<or> pendingDelete \<or> (pendingCreate \<and> txErrored)
      then Inl InvalidStateError else Inr ())"

text \<open>\<^verbatim>\<open>store.transaction && store.transaction.__errored\<close>\<close>

definition store_txErrored :: "'a state \<Rightarrow> nat \<Rightarrow> bool" where
  "store_txErrored st s =
     (case s_transaction (h_stores st s) of None \<Rightarrow> False | Some t \<Rightarrow> t_errored (h_txs st t))"

text \<open>The check applied to a store object.\<close>

definition invalidStateIfDeleted_of_store :: "'a state \<Rightarrow> nat \<Rightarrow> error + unit" where
  "invalidStateIfDeleted_of_store st s =
     IDBObjectStore_invalidStateIfDeleted (s_deleted (h_stores st s))
       (s_pendingDelete (h_stores st s)) (s_pendingCreate (h_stores st s)) (store_txErrored st s)"

text \<open>
  The check applied to an index object, as the name setter calls it
  (\<^verbatim>\<open>IDBObjectStore.__invalidStateIfDeleted(me)\<close>): the flags are the index's own, and an
  \<^verbatim>\<open>IDBIndex\<close> has no \<^verbatim>\<open>transaction\<close> property.
\<close>

definition invalidStateIfDeleted_of_index :: "'a state \<Rightarrow> nat \<Rightarrow> error + unit" where
  "invalidStateIfDeleted_of_index st i =
     IDBObjectStore_invalidStateIfDeleted (i_deleted (h_indexes st i))
       (i_pendingDelete (h_indexes st i)) (i_pendingCreate (h_indexes st i)) False"

text \<open>\<^verbatim>\<open>IDBIndex.__invalidStateIfDeleted\<close>\<close>

definition IDBIndex_invalidStateIfDeleted :: "'a state \<Rightarrow> nat \<Rightarrow> error + unit" where
  "IDBIndex_invalidStateIfDeleted st index =
     (if i_deleted (h_indexes st index) \<or> i_pendingDelete (h_indexes st index) \<or>
         (i_pendingCreate (h_indexes st index) \<and>
          store_txErrored st (i_objectStore (h_indexes st index)))
      then Inl InvalidStateError else Inr ())"

text \<open>
  Modelled from the spec: \<^verbatim>\<open>__currentName\<close> of an object store (\<^verbatim>\<open>IDBObjectStore.js\<close> is
  absent), the store's "current name" of section 6: the name its table still has while
  a rename is pending, as the getter \<^verbatim>\<open>__currentName\<close> of the index does for an index.
\<close>

definition store_currentName :: "idb_store \<Rightarrow> string" where
  "store_currentName s = (case s_pendingName s of Some p \<Rightarrow> p | None \<Rightarrow> s_name s)"

text \<open>The getter \<^verbatim>\<open>__currentName\<close> of an index.\<close>

definition index_currentName :: "idb_index \<Rightarrow> string" where
  "index_currentName i = (case i_pendingName i of Some p \<Rightarrow> p | None \<Rightarrow> i_name i)"

text \<open>\<^verbatim>\<open>__addToTransactionQueue\<close> and \<^verbatim>\<open>__addNonRequestToTransactionQueue\<close>: the step joins
  the queue of the transaction.\<close>

definition enqueue :: "nat \<Rightarrow> 'a queued \<Rightarrow> 'a state \<Rightarrow> 'a state" where
  "enqueue t q st =
     st\<lparr>h_txs := (h_txs st)(t := (h_txs st t)\<lparr>t_queue := t_queue (h_txs st t) @ [q]\<rparr>)\<rparr>"

section \<open>Fetching: \<^verbatim>\<open>buildFetchIndexDataSQL\<close>\<close>

text \<open>The text \<^verbatim>\<open>LIKE ? ESCAPE '^'\<close>.\<close>

definition likeEscape :: string where
  "likeEscape = ''LIKE ? ESCAPE '' @ [CHR 0x27] @ ''^'' @ [CHR 0x27]"

text \<open>The body of \<^verbatim>\<open>range.forEach\<close> under \<^verbatim>\<open>multiChecks\<close>; \<open>first\<close> is \<^verbatim>\<open>i === 0\<close>.\<close>

fun multiChecksSQL ::
  "'a env \<Rightarrow> string \<Rightarrow> bool \<Rightarrow> bool \<Rightarrow> 'a jsval list \<Rightarrow> error + (sqltok list \<times> string list)" where
  "multiChecksSQL env icol multiEntry first [] = Inr ([], [])"
| "multiChecksSQL env icol multiEntry first (innerKey # rest) =
     (case Key_encode env innerKey multiEntry of
        Inl e \<Rightarrow> Inl e
      | Inr enc \<Rightarrow>
          (case multiChecksSQL env icol multiEntry False rest of
             Inl e \<Rightarrow> Inl e
           | Inr (toks, vals) \<Rightarrow>
               Inr ((if first then [] else [Tok ''OR'']) @
                      [Tok icol, Tok (likeEscape @ '' '')] @ toks,
                    (''%'' @ sqlLIKEEscape env enc @ ''%'') # vals)))"

definition buildFetchIndexDataSQL ::
  "'a env \<Rightarrow> 'a state \<Rightarrow> bool \<Rightarrow> nat \<Rightarrow> 'a jsval \<Rightarrow> opType \<Rightarrow> bool \<Rightarrow> error + 'a fetchArgs" where
  "buildFetchIndexDataSQL env st nullDisallowed index rng opType multiChecks =
     (let hasRange = (nullDisallowed \<or> \<not> isNullish rng);
          col = (case opType of OpCount \<Rightarrow> ''key'' | OpKey \<Rightarrow> ''key'' | OpValue \<Rightarrow> ''value'');
          ix = h_indexes st index;
          icol = escapeIndexNameForSQL env (i_name ix);
          sql = [Tok ''SELECT'',
                 Tok (sqlQuote env col @ (if i_multiEntry ix then '', '' @ icol else [])),
                 Tok ''FROM'',
                 Tok (escapeStoreNameForSQL env
                        (store_currentName (h_stores st (i_objectStore ix)))),
                 Tok ''WHERE'', Tok icol, Tok ''NOT NULL''];
          orderBy = (if opType \<noteq> OpCount then [Tok ''ORDER BY '', Tok icol] else []);
          result = (\<lambda>toks vals.
             Inr \<lparr>fa_unboundedDisallowed = nullDisallowed, fa_index = index,
                  fa_hasKey = hasRange, fa_range = rng, fa_opType = opType,
                  fa_multiChecks = multiChecks, fa_sql = sql @ toks @ orderBy,
                  fa_sqlValues = vals\<rparr>)
      in if hasRange then
           if multiChecks then
             (case rng of
                JArray cs \<Rightarrow>
                  (case multiChecksSQL env icol (i_multiEntry ix) True cs of
                     Inl e \<Rightarrow> Inl e
                   | Inr (toks, vals) \<Rightarrow> result ([Tok ''AND (''] @ toks @ [Tok '')'']) vals)
              | _ \<Rightarrow> Inl TypeError)
           else if i_multiEntry ix then
             (case Key_encode env rng (i_multiEntry ix) of
                Inl e \<Rightarrow> Inl e
              | Inr enc \<Rightarrow>
                  result [Tok ''AND'', Tok icol, Tok likeEscape]
                         [''%'' @ sqlLIKEEscape env enc @ ''%''])
           else
             (case setSQLForKeyRange env rng nullDisallowed icol of
                Inl e \<Rightarrow> Inl e
              | Inr (toks, vals) \<Rightarrow> result toks vals)
         else result [] [])"

section \<open>Fetching: \<^verbatim>\<open>executeFetchIndexData\<close>\<close>

text \<open>What the \<^verbatim>\<open>success\<close> continuation of a fetch receives: the count, or a value.\<close>

datatype 'a fetched = Count nat | Resolved "'a jsval"

text \<open>The function \<^verbatim>\<open>decode\<close> chosen by \<^verbatim>\<open>opType\<close>; for a count it returns \<^verbatim>\<open>undefined\<close>.\<close>

definition decode_record :: "'a env \<Rightarrow> opType \<Rightarrow> row \<Rightarrow> 'a jsval option" where
  "decode_record env opType record =
     (case opType of
        OpCount \<Rightarrow> Some JUndefined
      | OpKey \<Rightarrow> Key_decode env (unescapeSQLiteResponse env (record ''key''))
      | OpValue \<Rightarrow> Sca_decode env (unescapeSQLiteResponse env (record ''value'')))"

text \<open>
  One row of a multi-entry index: whether \<^verbatim>\<open>record\<close> is set, and by how much
  \<^verbatim>\<open>recordCount\<close> grows. \<open>cell\<close> is \<^verbatim>\<open>row[escapedIndexNameForKeyCol]\<close>.
\<close>

definition multiEntryRow ::
  "'a env \<Rightarrow> 'a fetchArgs \<Rightarrow> string \<Rightarrow> string option \<Rightarrow> 'a jsval \<Rightarrow> (bool \<times> nat) option" where
  "multiEntryRow env fa encodedKey cell rowKey =
     (case (if fa_hasKey fa then
              (if fa_multiChecks fa then
                 (case some_includes env (fa_range fa) rowKey of
                    None \<Rightarrow> None
                  | Some True \<Rightarrow> Some True
                  | Some False \<Rightarrow> Some (Key_isMultiEntryMatch env encodedKey cell))
               else Some (Key_isMultiEntryMatch env encodedKey cell))
            else Some False) of
        None \<Rightarrow> None
      | Some True \<Rightarrow> Some (True, 1)
      | Some False \<Rightarrow>
          if \<not> fa_hasKey fa \<and> \<not> fa_multiChecks fa then
            (if rowKey \<noteq> JUndefined
             then Some (True, (case rowKey of JArray ks \<Rightarrow> length ks | _ \<Rightarrow> 1))
             else Some (False, 0))
          else Some (False, 0))"

text \<open>The loop over \<^verbatim>\<open>data.rows\<close> of a multi-entry index, with its \<^verbatim>\<open>break\<close>.\<close>

fun multiEntryRows ::
  "'a env \<Rightarrow> 'a fetchArgs \<Rightarrow> string \<Rightarrow> string \<Rightarrow> row list \<Rightarrow> 'a jsval list \<Rightarrow> nat \<Rightarrow>
   ('a jsval list \<times> nat) option" where
  "multiEntryRows env fa keyCol encodedKey [] records recordCount = Some (records, recordCount)"
| "multiEntryRows env fa keyCol encodedKey (row # rows) records recordCount =
     (case Key_decode env (row keyCol) of
        None \<Rightarrow> None
      | Some rowKey \<Rightarrow>
          (case multiEntryRow env fa encodedKey (row keyCol) rowKey of
             None \<Rightarrow> None
           | Some (hit, n) \<Rightarrow>
               if hit then
                 (case decode_record env (fa_opType fa) row of
                    None \<Rightarrow> None
                  | Some d \<Rightarrow>
                      if fa_unboundedDisallowed fa then Some (records @ [d], recordCount + n)
                      else multiEntryRows env fa keyCol encodedKey rows (records @ [d])
                             (recordCount + n))
               else multiEntryRows env fa keyCol encodedKey rows records (recordCount + n)))"

text \<open>The loop over \<^verbatim>\<open>data.rows\<close> of an ordinary index.\<close>

fun plainRows :: "'a env \<Rightarrow> opType \<Rightarrow> row list \<Rightarrow> 'a jsval list \<Rightarrow> 'a jsval list option" where
  "plainRows env opType [] records = Some records"
| "plainRows env opType (record # rows) records =
     (case decode_record env opType record of
        None \<Rightarrow> None
      | Some d \<Rightarrow> plainRows env opType rows (records @ [d]))"

text \<open>The callback of \<^verbatim>\<open>tx.executeSql\<close> in \<^verbatim>\<open>executeFetchIndexData\<close>, on \<^verbatim>\<open>data.rows\<close>.\<close>

definition fetchedRows ::
  "'a env \<Rightarrow> 'a fetchArgs \<Rightarrow> idb_index \<Rightarrow> row list \<Rightarrow> 'a fetched outcome" where
  "fetchedRows env fa index rows =
     (case (if i_multiEntry index then
              (case Key_encode env (fa_range fa) (i_multiEntry index) of
                 Inl e \<Rightarrow> None
               | Inr encodedKey \<Rightarrow>
                   multiEntryRows env fa (escapeIndexNameForSQLKeyColumn env (i_name index))
                     encodedKey rows [] 0)
            else
              (case plainRows env (fa_opType fa) rows [] of
                 None \<Rightarrow> None
               | Some records \<Rightarrow> Some (records, length records))) of
        None \<Rightarrow> NoContinuation
      | Some (records, recordCount) \<Rightarrow>
          if fa_opType fa = OpCount then Success (Count recordCount)
          else if recordCount = 0 then
            Success (Resolved (if fa_unboundedDisallowed fa then JUndefined else JArray []))
          else
            Success (Resolved (if fa_unboundedDisallowed fa
                               then (case records of [] \<Rightarrow> JUndefined | r # _ \<Rightarrow> r)
                               else JArray records)))"

definition executeFetchIndexData ::
  "'a env \<Rightarrow> nat option \<Rightarrow> 'a fetchArgs \<Rightarrow> 'a state \<Rightarrow> 'a fetched outcome" where
  "executeFetchIndexData env count fa st =
     (let count1 = (if fa_unboundedDisallowed fa then Some 1 else count);
          sql = (case count1 of
                   None \<Rightarrow> fa_sql fa
                 | Some n \<Rightarrow> if n \<noteq> 0 then fa_sql fa @ [Tok ''LIMIT'', TokNum n] else fa_sql fa)
      in case runSelect env sql (fa_sqlValues fa) (h_db st) of
           Inl err \<Rightarrow> Failure err
         | Inr rows \<Rightarrow> fetchedRows env fa (h_indexes st (fa_index fa)) rows)"

section \<open>Fetching: the methods of an index\<close>

text \<open>
  What a method returns: the request of a step it has queued, or the request of the
  cursor that \<^verbatim>\<open>count\<close> creates for an \<^verbatim>\<open>IDBKeyRange\<close> (\<^verbatim>\<open>IDBCursor.js\<close> is absent; what
  the cursor does is not modelled).
\<close>

datatype 'a request = QueuedRequest | CursorRequest "'a jsval"

text \<open>\<^verbatim>\<open>IDBIndex.prototype.__fetchIndexData\<close>\<close>

definition IDBIndex_fetchIndexData ::
  "'a env \<Rightarrow> nat \<Rightarrow> 'a jsval \<Rightarrow> opType \<Rightarrow> bool \<Rightarrow> 'a jsval \<Rightarrow> 'a state \<Rightarrow>
   (error + 'a request) \<times> 'a state" where
  "IDBIndex_fetchIndexData env me rng opType nullDisallowed count st =
     (case (if count \<noteq> JUndefined
            then (case enforceRange env count of Inl e \<Rightarrow> Inl e | Inr n \<Rightarrow> Inr (Some n))
            else Inr None) of
        Inl e \<Rightarrow> (Inl e, st)
      | Inr count1 \<Rightarrow>
     (case IDBIndex_invalidStateIfDeleted st me of
        Inl e \<Rightarrow> (Inl e, st)
      | Inr _ \<Rightarrow>
     (case invalidStateIfDeleted_of_store st (i_objectStore (h_indexes st me)) of
        Inl e \<Rightarrow> (Inl e, st)
      | Inr _ \<Rightarrow>
     if s_deleted (h_stores st (i_objectStore (h_indexes st me))) then (Inl InvalidStateError, st)
     else
     (case IDBTransaction_assertActive st
             (s_transaction (h_stores st (i_objectStore (h_indexes st me)))) of
        Inl e \<Rightarrow> (Inl e, st)
      | Inr _ \<Rightarrow>
     if nullDisallowed \<and> isNullish rng then (Inl DataError, st)
     else
     (case buildFetchIndexDataSQL env st nullDisallowed me rng opType False of
        Inl e \<Rightarrow> (Inl e, st)
      | Inr fetchArgs \<Rightarrow>
     (case s_transaction (h_stores st (i_objectStore (h_indexes st me))) of
        None \<Rightarrow> (Inl TypeError, st)
      | Some t \<Rightarrow> (Inr QueuedRequest, enqueue t (QFetch count1 fetchArgs) st)))))))"



text \<open>\<^verbatim>\<open>IDBIndex.prototype.getAll\<close>\<close>

definition IDBIndex_getAll ::
  "'a env \<Rightarrow> nat \<Rightarrow> 'a jsval list \<Rightarrow> 'a state \<Rightarrow> (error + 'a request) \<times> 'a state" where
  "IDBIndex_getAll env me args st =
     IDBIndex_fetchIndexData env me (argument args 0) OpValue False (argument args 1) st"

text \<open>\<^verbatim>\<open>IDBIndex.prototype.getAllKeys\<close>\<close>

definition IDBIndex_getAllKeys ::
  "'a env \<Rightarrow> nat \<Rightarrow> 'a jsval list \<Rightarrow> 'a state \<Rightarrow> (error + 'a request) \<times> 'a state" where
  "IDBIndex_getAllKeys env me args st =
     IDBIndex_fetchIndexData env me (argument args 0) OpKey False (argument args 1) st"

text \<open>\<^verbatim>\<open>util.instanceOf(query, IDBKeyRange)\<close>\<close>

fun isKeyRange :: "'a jsval \<Rightarrow> bool" where
  "isKeyRange (JKeyRange l u lo uo) = True"
| "isKeyRange _ = False"

text \<open>\<^verbatim>\<open>IDBIndex.prototype.count\<close>\<close>

definition IDBIndex_count ::
  "'a env \<Rightarrow> nat \<Rightarrow> 'a jsval list \<Rightarrow> 'a state \<Rightarrow> (error + 'a request) \<times> 'a state" where
  "IDBIndex_count env me args st =
     (if isKeyRange (argument args 0) then (Inr (CursorRequest (argument args 0)), st)
      else IDBIndex_fetchIndexData env me (argument args 0) OpCount False JUndefined st)"

section \<open>Executing the structural statements\<close>

text \<open>
  What \<^verbatim>\<open>tx.executeSql\<close> does with a structural statement: the rows it returns and the
  database afterwards, or an error. A statement fails as SQLite fails it: on a missing
  table or column, and on a name that is already taken. \<^verbatim>\<open>UPDATE\<close> changes the rows the
  \<^verbatim>\<open>WHERE\<close> clause selects, possibly none. Column types and constraints are not
  interpreted.
\<close>

fun executeSql :: "sql \<Rightarrow> database \<Rightarrow> error + (row list \<times> database)" where
  "executeSql (AlterTableAdd t c) db =
     (case d_tables db t of
        None \<Rightarrow> Inl SQLError
      | Some tb \<Rightarrow>
          if c \<in> set (tb_cols tb) then Inl SQLError
          else Inr ([], db\<lparr>d_tables := (d_tables db)(t \<mapsto>
                 \<lparr>tb_cols = tb_cols tb @ [c],
                  tb_rows = map (\<lambda>r. r(c := None)) (tb_rows tb)\<rparr>)\<rparr>))"
| "executeSql (CreateIndexIfNotExists n t c) db =
     (case d_tables db t of
        None \<Rightarrow> Inl SQLError
      | Some tb \<Rightarrow>
          if c \<notin> set (tb_cols tb) then Inl SQLError
          else if n \<in> fst ` set (d_sqlIndexes db) then Inr ([], db)
          else Inr ([], db\<lparr>d_sqlIndexes := d_sqlIndexes db @ [(n, t)]\<rparr>))"
| "executeSql (CreateIndex n t c) db =
     (case d_tables db t of
        None \<Rightarrow> Inl SQLError
      | Some tb \<Rightarrow>
          if c \<notin> set (tb_cols tb) \<or> n \<in> fst ` set (d_sqlIndexes db) then Inl SQLError
          else Inr ([], db\<lparr>d_sqlIndexes := d_sqlIndexes db @ [(n, t)]\<rparr>))"
| "executeSql (DropIndexIfExists n) db =
     Inr ([], db\<lparr>d_sqlIndexes := filter (\<lambda>p. fst p \<noteq> n) (d_sqlIndexes db)\<rparr>)"
| "executeSql (UpdateSysIndexList l s) db =
     (case d_sys db s of
        None \<Rightarrow> Inr ([], db)
      | Some old \<Rightarrow> Inr ([], db\<lparr>d_sys := (d_sys db)(s \<mapsto> l)\<rparr>))"
| "executeSql (SelectKeyValue t) db =
     (case d_tables db t of
        None \<Rightarrow> Inl SQLError
      | Some tb \<Rightarrow>
          Inr (map (\<lambda>r c. if c = ''key'' \<or> c = ''value'' then r c else None) (tb_rows tb), db))"
| "executeSql (UpdateSet t c v k) db =
     (case d_tables db t of
        None \<Rightarrow> Inl SQLError
      | Some tb \<Rightarrow>
          if c \<notin> set (tb_cols tb) then Inl SQLError
          else Inr ([], db\<lparr>d_tables := (d_tables db)(t \<mapsto>
                 tb\<lparr>tb_rows := map (\<lambda>r. if k \<noteq> None \<and> r ''key'' = k then r(c \<mapsto> v) else r)
                                    (tb_rows tb)\<rparr>)\<rparr>))"
| "executeSql (CreateTable t cs) db =
     (case d_tables db t of
        Some tb \<Rightarrow> Inl SQLError
      | None \<Rightarrow>
          if \<not> distinct (map fst cs) then Inl SQLError
          else Inr ([], db\<lparr>d_tables := (d_tables db)(t \<mapsto>
                 \<lparr>tb_cols = map fst cs, tb_rows = []\<rparr>)\<rparr>))"
| "executeSql (InsertIntoSelect t cs s ds) db =
     (case (d_tables db t, d_tables db s) of
        (Some tb, Some sb) \<Rightarrow>
          if length cs \<noteq> length ds \<or> \<not> set cs \<subseteq> set (tb_cols tb) \<or>
             \<not> set ds \<subseteq> set (tb_cols sb) \<or> \<not> distinct cs
          then Inl SQLError
          else Inr ([], db\<lparr>d_tables := (d_tables db)(t \<mapsto>
                 tb\<lparr>tb_rows := tb_rows tb @
                      map (\<lambda>r c. case map_of (zip cs ds) c of None \<Rightarrow> None | Some d \<Rightarrow> r d)
                          (tb_rows sb)\<rparr>)\<rparr>)
      | _ \<Rightarrow> Inl SQLError)"
| "executeSql (DropTable t) db =
     (case d_tables db t of
        None \<Rightarrow> Inl SQLError
      | Some tb \<Rightarrow>
          Inr ([], db\<lparr>d_tables := (d_tables db)(t := None),
                      d_sqlIndexes := filter (\<lambda>p. snd p \<noteq> t) (d_sqlIndexes db)\<rparr>))"
| "executeSql (AlterTableRename t s) db =
     (case d_tables db t of
        None \<Rightarrow> Inl SQLError
      | Some tb \<Rightarrow>
          (case d_tables db s of
             Some sb \<Rightarrow> Inl SQLError
           | None \<Rightarrow>
               Inr ([], db\<lparr>d_tables := (d_tables db)(t := None, s \<mapsto> tb),
                           d_sqlIndexes :=
                             map (\<lambda>p. if snd p = t then (fst p, s) else p) (d_sqlIndexes db)\<rparr>)))"

section \<open>\<^verbatim>\<open>IDBIndex.__updateIndexList\<close>\<close>

text \<open>\<^verbatim>\<open>obj[k] = v\<close> on an object whose string keys keep their insertion order.\<close>

fun setProperty :: "string \<Rightarrow> 'v \<Rightarrow> (string \<times> 'v) list \<Rightarrow> (string \<times> 'v) list" where
  "setProperty k v [] = [(k, v)]"
| "setProperty k v (p # ps) = (if fst p = k then (k, v) # ps else p # setProperty k v ps)"

text \<open>
  The loop that builds \<^verbatim>\<open>indexList\<close>; \<open>None\<close> when \<^verbatim>\<open>store.__indexes\<close> has no entry for a
  name of \<^verbatim>\<open>indexNames\<close>, since reading \<^verbatim>\<open>idx.name\<close> then throws. The entry's \<^verbatim>\<open>deleted\<close> is
  \<^verbatim>\<open>!!idx.deleted\<close>, a property no index has.
\<close>

fun buildIndexList :: "'a state \<Rightarrow> (string \<Rightarrow> nat option) \<Rightarrow> string list \<Rightarrow> indexList \<Rightarrow> indexList option" where
  "buildIndexList st ixs [] indexList = Some indexList"
| "buildIndexList st ixs (n # ns) indexList =
     (case ixs n of
        None \<Rightarrow> None
      | Some i \<Rightarrow>
          buildIndexList st ixs ns
            (setProperty (i_name (h_indexes st i))
               \<lparr>ip_columnName = i_name (h_indexes st i), ip_keyPath = i_keyPath (h_indexes st i),
                ip_unique = i_unique (h_indexes st i),
                ip_multiEntry = i_multiEntry (h_indexes st i), ip_deleted = False\<rparr>
               indexList))"

text \<open>
  \<open>Success\<close>: the statement ran and \<^verbatim>\<open>success(store)\<close> is due, on the new database;
  \<open>Failure\<close>: the statement failed, and \<^verbatim>\<open>failure\<close> is called if the caller gave one.
\<close>

definition IDBIndex_updateIndexList :: "'a env \<Rightarrow> nat \<Rightarrow> 'a state \<Rightarrow> database outcome" where
  "IDBIndex_updateIndexList env store st =
     (case buildIndexList st (s_indexes (h_stores st store)) (s_indexNames (h_stores st store)) [] of
        None \<Rightarrow> NoContinuation
      | Some indexList \<Rightarrow>
          (case executeSql
                  (UpdateSysIndexList indexList
                     (escapeSQLiteStatement env (store_currentName (h_stores st store))))
                  (h_db st) of
             Inl err \<Rightarrow> Failure err
           | Inr (data, db1) \<Rightarrow> Success db1))"

section \<open>Creating an index: \<^verbatim>\<open>IDBIndex.__createIndex\<close>\<close>



text \<open>
  The body of the \<^verbatim>\<open>try\<close> of \<^verbatim>\<open>addIndexEntry\<close> up to \<^verbatim>\<open>Key.encode\<close>: the encoded key of a
  row, or \<open>None\<close> when control goes to the \<^verbatim>\<open>catch\<close>.
\<close>

definition encodeIndexKey :: "'a env \<Rightarrow> idb_index \<Rightarrow> row \<Rightarrow> string option" where
  "encodeIndexKey env index r =
     (case Sca_decode env (unescapeSQLiteResponse env (r ''value'')) of
        None \<Rightarrow> None
      | Some v \<Rightarrow>
          (case Key_extract env v (i_keyPath index) (i_multiEntry index) of
             None \<Rightarrow> None
           | Some (invalid, failure, indexKey) \<Rightarrow>
               if invalid \<or> failure then None
               else (case Key_encode env indexKey (i_multiEntry index) of
                       Inl e \<Rightarrow> None
                     | Inr enc \<Rightarrow> Some enc)))"

text \<open>
  \<^verbatim>\<open>indexValues\<close> is an object literal, so besides the keys assigned to it, it has the
  properties it inherits from \<^verbatim>\<open>Object.prototype\<close>, all of them truthy; an assignment to
  \<^verbatim>\<open>__proto__\<close> of a value that is not an object is ignored. The list holds the keys
  assigned.
\<close>

definition objectPrototypeProperties :: "string list" where
  "objectPrototypeProperties =
     [''constructor'', ''__defineGetter__'', ''__defineSetter__'', ''hasOwnProperty'',
      ''__lookupGetter__'', ''__lookupSetter__'', ''isPrototypeOf'', ''propertyIsEnumerable'',
      ''toString'', ''valueOf'', ''__proto__'', ''toLocaleString'']"

definition indexValues_get :: "string list \<Rightarrow> string \<Rightarrow> bool" where
  "indexValues_get indexValues k = (k \<in> set indexValues \<or> k \<in> set objectPrototypeProperties)"

definition indexValues_set :: "string list \<Rightarrow> string \<Rightarrow> string list" where
  "indexValues_set indexValues k = (if k = ''__proto__'' then indexValues else k # indexValues)"

text \<open>The last branch of \<^verbatim>\<open>addIndexEntry\<close>: the pending flags are cleared.\<close>

definition finishCreate :: "nat \<Rightarrow> nat \<Rightarrow> 'a state \<Rightarrow> 'a state" where
  "finishCreate index indexHandle st =
     (let st1 = st\<lparr>h_indexes := (h_indexes st)(index :=
                      (h_indexes st index)\<lparr>i_pendingCreate := False\<rparr>)\<rparr>;
          st2 = st1\<lparr>h_indexes := (h_indexes st1)(indexHandle :=
                      (h_indexes st1 indexHandle)\<lparr>i_pendingCreate := False\<rparr>)\<rparr>
      in if i_deleted (h_indexes st2 index) then
           (let st3 = st2\<lparr>h_indexes := (h_indexes st2)(index :=
                            (h_indexes st2 index)\<lparr>i_deleted := False\<rparr>)\<rparr>;
                st4 = st3\<lparr>h_indexes := (h_indexes st3)(indexHandle :=
                            (h_indexes st3 indexHandle)\<lparr>i_deleted := False\<rparr>)\<rparr>;
                st5 = st4\<lparr>h_indexes := (h_indexes st4)(index :=
                            (h_indexes st4 index)\<lparr>i_recreated := True\<rparr>)\<rparr>
            in st5\<lparr>h_indexes := (h_indexes st5)(indexHandle :=
                            (h_indexes st5 indexHandle)\<lparr>i_recreated := True\<rparr>)\<rparr>)
         else st2)"

text \<open>
  \<^verbatim>\<open>addIndexEntry(i)\<close> on \<^verbatim>\<open>data.rows\<close>, with the variables of the enclosing closures:
  \<open>index\<close>, \<open>indexHandle\<close>, \<open>indexName\<close>, \<open>storeName\<close> and \<open>indexValues\<close>.
\<close>

function addIndexEntry ::
  "'a env \<Rightarrow> nat \<Rightarrow> nat \<Rightarrow> string \<Rightarrow> string \<Rightarrow> row list \<Rightarrow> nat \<Rightarrow> string list \<Rightarrow> 'a state \<Rightarrow>
   unit outcome \<times> 'a state" where
  "addIndexEntry env index indexHandle indexName storeName rows i indexValues st =
     (if i < length rows then
        (case encodeIndexKey env (h_indexes st index) (rows ! i) of
           None \<Rightarrow> addIndexEntry env index indexHandle indexName storeName rows (i + 1) indexValues st
         | Some indexKey \<Rightarrow>
             if i_unique (h_indexes st index) \<and> indexValues_get indexValues indexKey
             then (Failure ConstraintError, st)
             else
               (case executeSql
                       (UpdateSet (escapeStoreNameForSQL env storeName)
                          (escapeIndexNameForSQL env indexName)
                          (escapeSQLiteStatement env indexKey) ((rows ! i) ''key''))
                       (h_db st) of
                  Inl err \<Rightarrow> (Failure UnknownError, st)
                | Inr (data, db1) \<Rightarrow>
                    addIndexEntry env index indexHandle indexName storeName rows (i + 1)
                      (if i_unique (h_indexes st index) then indexValues_set indexValues indexKey
                       else indexValues)
                      (st\<lparr>h_db := db1\<rparr>)))
      else (Success (), finishCreate index indexHandle st))"
  by pat_completeness auto
termination
  by (relation "measure (\<lambda>(env, index, indexHandle, indexName, storeName, rows, i, indexValues, st).
        length rows - i)") auto

declare addIndexEntry.simps [simp del]

text \<open>\<^verbatim>\<open>applyIndex(tx)\<close>: the index list is persisted, then every record is read.\<close>

definition applyIndex ::
  "'a env \<Rightarrow> nat \<Rightarrow> nat \<Rightarrow> nat \<Rightarrow> string \<Rightarrow> string \<Rightarrow> 'a state \<Rightarrow> unit outcome \<times> 'a state" where
  "applyIndex env store index indexHandle indexName storeName st =
     (case IDBIndex_updateIndexList env store st of
        NoContinuation \<Rightarrow> (NoContinuation, st)
      | Failure err \<Rightarrow> (Failure UnknownError, st)
      | Success db1 \<Rightarrow>
          (case executeSql (SelectKeyValue (escapeStoreNameForSQL env storeName)) db1 of
             Inl err \<Rightarrow> (Failure UnknownError, st\<lparr>h_db := db1\<rparr>)
           | Inr (rows, db2) \<Rightarrow>
               addIndexEntry env index indexHandle indexName storeName rows 0 []
                 (st\<lparr>h_db := db2\<rparr>)))"

text \<open>
  The step \<^verbatim>\<open>createIndex\<close> that \<^verbatim>\<open>__createIndex\<close> queues: \<^verbatim>\<open>columnExists\<close>, the
  \<^verbatim>\<open>ALTER TABLE\<close>, \<^verbatim>\<open>addIndexSQL\<close>, then \<^verbatim>\<open>applyIndex\<close>.
\<close>

definition createIndex_step ::
  "'a env \<Rightarrow> nat \<Rightarrow> nat \<Rightarrow> string \<Rightarrow> string \<Rightarrow> nat option \<Rightarrow> nat \<Rightarrow> 'a state \<Rightarrow>
   unit outcome \<times> 'a state" where
  "createIndex_step env store index indexName storeName idx indexHandle st =
     (let columnExists = (case idx of
                            None \<Rightarrow> False
                          | Some i \<Rightarrow> i_deleted (h_indexes st i) \<or> i_recreated (h_indexes st i));
          escapedStoreNameSQL = escapeStoreNameForSQL env storeName;
          escapedIndexNameSQL = escapeIndexNameForSQL env (i_name (h_indexes st index))
      in if columnExists then applyIndex env store index indexHandle indexName storeName st
         else
           (case executeSql (AlterTableAdd escapedStoreNameSQL escapedIndexNameSQL) (h_db st) of
              Inl err \<Rightarrow> (Failure UnknownError, st)
            | Inr (data, db1) \<Rightarrow>
                if \<not> useSQLiteIndexes env
                then applyIndex env store index indexHandle indexName storeName (st\<lparr>h_db := db1\<rparr>)
                else
                  (case executeSql
                          (CreateIndexIfNotExists
                             ([CHR 0x22] @ slice1 escapedStoreNameSQL @ ''^5'' @
                              slice1 escapedIndexNameSQL @ [CHR 0x22])
                             escapedStoreNameSQL escapedIndexNameSQL) db1 of
                     Inl err \<Rightarrow> (Failure UnknownError, st\<lparr>h_db := db1\<rparr>)
                   | Inr (data, db2) \<Rightarrow>
                       applyIndex env store index indexHandle indexName storeName
                         (st\<lparr>h_db := db2\<rparr>))))"


section \<open>Renaming an index: the setter of \<^verbatim>\<open>name\<close> and \<^verbatim>\<open>__renameIndex\<close>\<close>

text \<open>\<^verbatim>\<open>xs.indexOf(x)\<close>, \<open>None\<close> for \<^verbatim>\<open>-1\<close>.\<close>

fun indexOf :: "string list \<Rightarrow> string \<Rightarrow> nat option" where
  "indexOf [] x = None"
| "indexOf (y # ys) x = (if y = x then Some 0 else map_option Suc (indexOf ys x))"

text \<open>
  \<^verbatim>\<open>xs.splice(xs.indexOf(oldName), 1, newName)\<close>: with the start \<^verbatim>\<open>-1\<close>, \<^verbatim>\<open>splice\<close> counts
  from the end and replaces the last element, or inserts into an empty array.
\<close>

definition spliceName :: "string list \<Rightarrow> string \<Rightarrow> string \<Rightarrow> string list" where
  "spliceName xs oldName newName =
     (case indexOf xs oldName of
        Some i \<Rightarrow> xs[i := newName]
      | None \<Rightarrow> butlast xs @ [newName])"

text \<open>
  The statements of the \<^verbatim>\<open>SyncPromise\<close>s of \<^verbatim>\<open>renameIndex\<close>: all are handed to the
  transaction, a failed one rejects its promise and the transaction goes on to the next.
  \<open>True\<close> when one failed.
\<close>

fun createIndexes :: "'a env \<Rightarrow> string \<Rightarrow> string list \<Rightarrow> database \<Rightarrow> bool \<times> database" where
  "createIndexes env escapedStoreNameSQL [] db = (False, db)"
| "createIndexes env escapedStoreNameSQL (escapedIndexNameSQL # cols) db =
     (case executeSql
             (CreateIndex
                (sqlQuote env (slice1 escapedStoreNameSQL @ ''^5'' @ slice1 escapedIndexNameSQL))
                escapedStoreNameSQL escapedIndexNameSQL) db of
        Inl err \<Rightarrow> (True, snd (createIndexes env escapedStoreNameSQL cols db))
      | Inr (data, db1) \<Rightarrow> createIndexes env escapedStoreNameSQL cols db1)"

text \<open>The last promise: the index on \<^verbatim>\<open>"key"\<close> is dropped and created again.\<close>

definition recreateKeyIndex :: "'a env \<Rightarrow> string \<Rightarrow> database \<Rightarrow> bool \<times> database" where
  "recreateKeyIndex env escapedStoreNameSQL db =
     (let escapedIndexToRecreate = sqlQuote env (''sk_'' @ slice1 escapedStoreNameSQL)
      in case executeSql (DropIndexIfExists escapedIndexToRecreate) db of
           Inl err \<Rightarrow> (True, db)
         | Inr (data, db1) \<Rightarrow>
             (case executeSql (CreateIndex escapedIndexToRecreate escapedStoreNameSQL ''key'') db1 of
                Inl err \<Rightarrow> (True, db1)
              | Inr (data, db2) \<Rightarrow> (False, db2)))"

text \<open>
  \<^verbatim>\<open>finish()\<close>: without a callback, \<^verbatim>\<open>success()\<close>. With the callback of the name setter,
  \<^verbatim>\<open>__updateIndexList(store, tx, ...)\<close> is called without a failure continuation, and on
  its success \<^verbatim>\<open>__pendingName\<close> is deleted from \<^verbatim>\<open>storeHandle\<close>.
\<close>

definition finishRename :: "'a env \<Rightarrow> (nat \<times> nat) option \<Rightarrow> 'a state \<Rightarrow> unit outcome \<times> 'a state" where
  "finishRename env cb st =
     (case cb of
        None \<Rightarrow> (Success (), st)
      | Some (store, storeHandle) \<Rightarrow>
          (case IDBIndex_updateIndexList env store st of
             NoContinuation \<Rightarrow> (NoContinuation, st)
           | Failure err \<Rightarrow> (NoContinuation, st)
           | Success db1 \<Rightarrow>
               (Success (),
                st\<lparr>h_db := db1,
                   h_stores := (h_stores st)(storeHandle :=
                     (h_stores st storeHandle)\<lparr>s_pendingName := None\<rparr>)\<rparr>)))"

text \<open>The step \<^verbatim>\<open>renameIndex\<close> that \<^verbatim>\<open>__renameIndex\<close> queues.\<close>

definition renameIndex_step ::
  "'a env \<Rightarrow> nat \<Rightarrow> string \<Rightarrow> string \<Rightarrow> (string \<times> string) list \<Rightarrow> string \<Rightarrow> (nat \<times> nat) option \<Rightarrow>
   'a state \<Rightarrow> unit outcome \<times> 'a state" where
  "renameIndex_step env store oldName newName colInfoToPreserveArr storeName cb st =
     (let escapedStoreNameSQL = escapeStoreNameForSQL env storeName;
          escapedNewIndexNameSQL = escapeIndexNameForSQL env newName;
          escapedTmpStoreNameSQL = sqlQuote env (''tmp_'' @ slice1 (escapeStoreNameForSQL env storeName));
          colNamesToPreserve = map fst colInfoToPreserveArr
      in case executeSql
                (CreateTable escapedTmpStoreNameSQL
                   (colInfoToPreserveArr @ [(escapedNewIndexNameSQL, ''BLOB'')])) (h_db st) of
           Inl err \<Rightarrow> (Failure err, st)
         | Inr (data, db1) \<Rightarrow>
        (case executeSql
                (InsertIntoSelect escapedTmpStoreNameSQL
                   (colNamesToPreserve @ [escapedNewIndexNameSQL]) escapedStoreNameSQL
                   (colNamesToPreserve @ [escapeIndexNameForSQL env oldName])) db1 of
           Inl err \<Rightarrow> (Failure err, st\<lparr>h_db := db1\<rparr>)
         | Inr (data, db2) \<Rightarrow>
        (case executeSql (DropTable escapedStoreNameSQL) db2 of
           Inl err \<Rightarrow> (Failure err, st\<lparr>h_db := db2\<rparr>)
         | Inr (data, db3) \<Rightarrow>
        (case executeSql (AlterTableRename escapedTmpStoreNameSQL escapedStoreNameSQL) db3 of
           Inl err \<Rightarrow> (Failure err, st\<lparr>h_db := db3\<rparr>)
         | Inr (data, db4) \<Rightarrow>
             if \<not> useSQLiteIndexes env then finishRename env cb (st\<lparr>h_db := db4\<rparr>)
             else
               (let (failed1, db5) =
                      createIndexes env escapedStoreNameSQL (drop 2 colNamesToPreserve) db4;
                    (failed2, db6) = recreateKeyIndex env escapedStoreNameSQL db5
                in if failed1 \<or> failed2 then (Failure SQLError, st\<lparr>h_db := db6\<rparr>)
                   else finishRename env cb (st\<lparr>h_db := db6\<rparr>))))))"

text \<open>
  \<^verbatim>\<open>IDBIndex.prototype.__renameIndex\<close>: the names are computed at the call, the step is
  queued on the transaction of \<open>store\<close>.
\<close>

definition IDBIndex_renameIndex ::
  "nat \<Rightarrow> string \<Rightarrow> string \<Rightarrow> (string \<times> string) list \<Rightarrow> (nat \<times> nat) option \<Rightarrow> 'a state \<Rightarrow>
   (error + unit) \<times> 'a state" where
  "IDBIndex_renameIndex store oldName newName colInfoToPreserveArr cb st =
     (let storeName = store_currentName (h_stores st store)
      in case s_transaction (h_stores st store) of
           None \<Rightarrow> (Inl TypeError, st)
         | Some t \<Rightarrow>
             (Inr (), enqueue t
                (QRenameIndex store oldName newName colInfoToPreserveArr storeName cb) st))"

text \<open>
  The setter of \<^verbatim>\<open>name\<close>, on \<open>newName\<close> as \<^verbatim>\<open>util.convertToDOMString\<close> returned it. The
  checks come first; then the names are changed in the store, in the store handle of
  the transaction and in the index handle found there; then the rename is queued.
  Reading a property of a store handle or an index handle that does not exist throws.
\<close>

definition IDBIndex_setName ::
  "'a env \<Rightarrow> nat \<Rightarrow> string \<Rightarrow> 'a state \<Rightarrow> (error + unit) \<times> 'a state" where
  "IDBIndex_setName env me newName st =
     (let oldName = i_name (h_indexes st me);
          objectStore = i_objectStore (h_indexes st me)
      in
      case IDBTransaction_assertVersionChange st (s_transaction (h_stores st objectStore)) of
        Inl e \<Rightarrow> (Inl e, st)
      | Inr _ \<Rightarrow>
     (case IDBTransaction_assertActive st (s_transaction (h_stores st objectStore)) of
        Inl e \<Rightarrow> (Inl e, st)
      | Inr _ \<Rightarrow>
     (case IDBIndex_invalidStateIfDeleted st me of
        Inl e \<Rightarrow> (Inl e, st)
      | Inr _ \<Rightarrow>
     (case invalidStateIfDeleted_of_index st me of
        Inl e \<Rightarrow> (Inl e, st)
      | Inr _ \<Rightarrow>
     if newName = oldName then (Inr (), st)
     else if (case s_indexes (h_stores st objectStore) newName of
                None \<Rightarrow> False
              | Some other \<Rightarrow> \<not> i_deleted (h_indexes st other) \<and>
                              \<not> i_pendingDelete (h_indexes st other))
     then (Inl ConstraintError, st)
     else
       (let st1 = st\<lparr>h_indexes := (h_indexes st)(me := (h_indexes st me)\<lparr>i_name := newName\<rparr>)\<rparr>;
            st2 = st1\<lparr>h_stores := (h_stores st1)(objectStore := (h_stores st1 objectStore)
                       \<lparr>s_indexes := (s_indexes (h_stores st1 objectStore))(oldName := None)\<rparr>)\<rparr>;
            st3 = st2\<lparr>h_stores := (h_stores st2)(objectStore := (h_stores st2 objectStore)
                       \<lparr>s_indexes := (s_indexes (h_stores st2 objectStore))(newName \<mapsto> me)\<rparr>)\<rparr>;
            st4 = st3\<lparr>h_stores := (h_stores st3)(objectStore := (h_stores st3 objectStore)
                       \<lparr>s_indexNames :=
                          spliceName (s_indexNames (h_stores st3 objectStore)) oldName newName\<rparr>)\<rparr>
        in case s_transaction (h_stores st4 objectStore) of
             None \<Rightarrow> (Inl TypeError, st4)
           | Some t \<Rightarrow>
          (case t_storeHandles (h_txs st4 t) (s_name (h_stores st4 objectStore)) of
             None \<Rightarrow> (Inl TypeError, st4)
           | Some storeHandle \<Rightarrow>
          (case s_indexHandles (h_stores st4 storeHandle) oldName of
             None \<Rightarrow> (Inl TypeError, st4)
           | Some oldIndexHandle \<Rightarrow>
              (let st5 = st4\<lparr>h_indexes := (h_indexes st4)(oldIndexHandle :=
                               (h_indexes st4 oldIndexHandle)\<lparr>i_name := newName\<rparr>)\<rparr>;
                   st6 = st5\<lparr>h_stores := (h_stores st5)(storeHandle := (h_stores st5 storeHandle)
                               \<lparr>s_indexHandles :=
                                  (s_indexHandles (h_stores st5 storeHandle))(newName \<mapsto> oldIndexHandle)\<rparr>)\<rparr>;
                   st7 = st6\<lparr>h_indexes := (h_indexes st6)(me :=
                               (h_indexes st6 me)\<lparr>i_pendingName := Some oldName\<rparr>)\<rparr>;
                   colInfoToPreserveArr =
                     [(''key'', ''BLOB '' @
                         (if s_autoIncrement (h_stores st7 objectStore)
                          then ''UNIQUE, inc INTEGER PRIMARY KEY AUTOINCREMENT''
                          else ''PRIMARY KEY'')),
                      (''value'', ''BLOB'')] @
                     map (\<lambda>indexName. (escapeIndexNameForSQL env indexName, ''BLOB''))
                       (filter (\<lambda>indexName. indexName \<noteq> newName)
                          (s_indexNames (h_stores st7 objectStore)))
               in IDBIndex_renameIndex objectStore oldName newName colInfoToPreserveArr
                    (Some (objectStore, storeHandle)) st7))))))))"

text \<open>What the transaction queue does with a queued step when its turn comes.\<close>

datatype 'a stepResult = Fetched "'a fetched outcome" | Structural "unit outcome"

fun runStep :: "'a env \<Rightarrow> 'a queued \<Rightarrow> 'a state \<Rightarrow> 'a stepResult \<times> 'a state" where
  "runStep env (QFetch count fetchArgs) st =
     (Fetched (executeFetchIndexData env count fetchArgs st), st)"
| "runStep env (QCreateIndex store index indexName storeName idx indexHandle) st =
     (case createIndex_step env store index indexName storeName idx indexHandle st of
        (r, st1) \<Rightarrow> (Structural r, st1))"
| "runStep env (QRenameIndex store oldName newName colInfoToPreserveArr storeName cb) st =
     (case renameIndex_step env store oldName newName colInfoToPreserveArr storeName cb st of
        (r, st1) \<Rightarrow> (Structural r, st1))"

section \<open>Predicates used in the statements\<close>


text \<open>The four assertions of the setter of \<^verbatim>\<open>name\<close>.\<close>

definition renameChecksPass :: "'a state \<Rightarrow> nat \<Rightarrow> bool" where
  "renameChecksPass st me \<longleftrightarrow>
     IDBTransaction_assertVersionChange st
       (s_transaction (h_stores st (i_objectStore (h_indexes st me)))) = Inr () \<and>
     IDBTransaction_assertActive st
       (s_transaction (h_stores st (i_objectStore (h_indexes st me)))) = Inr () \<and>
     IDBIndex_invalidStateIfDeleted st me = Inr () \<and>
     invalidStateIfDeleted_of_index st me = Inr ()"

text \<open>
  A query matches no rows: the backend returns none or, for a multi-entry index, every
  row it returns is rejected when \<^verbatim>\<open>executeFetchIndexData\<close> checks it again.
\<close>

definition matchesNoRows :: "'a env \<Rightarrow> 'a fetchArgs \<Rightarrow> idb_index \<Rightarrow> row list \<Rightarrow> bool" where
  "matchesNoRows env fa index rows \<longleftrightarrow>
     (if i_multiEntry index then
        (\<exists>encodedKey. Key_encode env (fa_range fa) True = Inr encodedKey \<and>
           (\<forall>r \<in> set rows. \<exists>rowKey.
              Key_decode env (r (escapeIndexNameForSQLKeyColumn env (i_name index))) = Some rowKey \<and>
              multiEntryRow env fa encodedKey
                (r (escapeIndexNameForSQLKeyColumn env (i_name index))) rowKey = Some (False, 0)))
      else rows = [])"

text \<open>The statement text \<^verbatim>\<open>executeFetchIndexData\<close> sends, with its \<^verbatim>\<open>LIMIT\<close>.\<close>

definition sentSQL :: "nat option \<Rightarrow> 'a fetchArgs \<Rightarrow> sqltok list" where
  "sentSQL count fa =
     (case (if fa_unboundedDisallowed fa then Some 1 else count) of
        None \<Rightarrow> fa_sql fa
      | Some n \<Rightarrow> if n \<noteq> 0 then fa_sql fa @ [Tok ''LIMIT'', TokNum n] else fa_sql fa)"


section \<open>An example world\<close>

text \<open>
  Collaborators for the examples: atoms are natural numbers, a key or a value is stored
  as one of a few known texts, the key path is the empty one (the key is the value
  itself), and names are escaped with a prefix and double quotes. Encoding for a
  multi-entry index keeps the distinct elements of an array (section 4.1 of the spec).
\<close>

definition ex_texts :: "(string \<times> nat jsval) list" where
  "ex_texts =
     [(''7'', JAtom 7), (''8'', JAtom 8),
      (''[1,2,3]'', JArray [JAtom 1, JAtom 2, JAtom 3]),
      (''[1,2,2,3]'', JArray [JAtom 1, JAtom 2, JAtom 2, JAtom 3]),
      (''null'', JNull), (''undefined'', JUndefined)]"

definition ex_quote :: "string \<Rightarrow> string" where
  "ex_quote s = [CHR 0x22] @ s @ [CHR 0x22]"

definition ex_encode :: "nat jsval \<Rightarrow> bool \<Rightarrow> error + string" where
  "ex_encode v multiEntry =
     (case find (\<lambda>p. snd p = (case v of
                                 JArray xs \<Rightarrow> if multiEntry then JArray (remdups xs) else v
                               | _ \<Rightarrow> v)) ex_texts of
        None \<Rightarrow> Inl DataError
      | Some p \<Rightarrow> Inr (fst p))"

definition ex_decode :: "string option \<Rightarrow> nat jsval option" where
  "ex_decode cell = (case cell of None \<Rightarrow> Some JUndefined | Some s \<Rightarrow> map_of ex_texts s)"

definition ex_runSelect :: "sqltok list \<Rightarrow> string list \<Rightarrow> database \<Rightarrow> error + row list" where
  "ex_runSelect sql vals db =
     (case d_tables db (ex_quote ''Ss'') of
        None \<Rightarrow> Inl SQLError
      | Some tb \<Rightarrow>
          Inr (map (\<lambda>r c. if c = ''key'' \<or> c = ''value'' then r c
                           else if c = ''_a'' then r (ex_quote ''_a'') else None)
                 (filter (\<lambda>r. r (ex_quote ''_a'') \<noteq> None) (tb_rows tb))))"

definition ex_env :: "nat env" where
  "ex_env =
     \<lparr>Key_encode = ex_encode,
      Key_decode = ex_decode,
      Key_isMultiEntryMatch = (\<lambda>encodedKey cell. cell = Some encodedKey),
      Key_extract = (\<lambda>v keyPath multiEntry.
         (case v of JNull \<Rightarrow> Some (True, False, JUndefined) | _ \<Rightarrow> Some (False, False, v))),
      Sca_decode = (\<lambda>cell. case cell of None \<Rightarrow> None | Some s \<Rightarrow> map_of ex_texts s),
      enforceRange = (\<lambda>v. case v of JAtom n \<Rightarrow> Inr n | _ \<Rightarrow> Inl TypeError),
      some_includes = (\<lambda>rng rowKey. case rowKey of
                         JArray ks \<Rightarrow> (case rng of JArray cs \<Rightarrow> Some (\<exists>c \<in> set cs. c \<in> set ks)
                                                   | _ \<Rightarrow> None)
                       | _ \<Rightarrow> None),
      setSQLForKeyRange = (\<lambda>rng nullDisallowed col. Inr ([], [])),
      runSelect = ex_runSelect,
      sqlQuote = ex_quote,
      sqlLIKEEscape = (\<lambda>s. s),
      escapeStoreNameForSQL = (\<lambda>n. ex_quote (''S'' @ n)),
      escapeIndexNameForSQL = (\<lambda>n. ex_quote (''_'' @ n)),
      escapeIndexNameForSQLKeyColumn = (\<lambda>n. ''_'' @ n),
      escapeSQLiteStatement = (\<lambda>s. s),
      unescapeSQLiteResponse = (\<lambda>s. s),
      useSQLiteIndexes = False\<rparr>"

text \<open>An index object named \<open>name\<close> of the store at address 0, on the empty key path.\<close>

definition ex_index :: "string \<Rightarrow> bool \<Rightarrow> bool \<Rightarrow> idb_index" where
  "ex_index name unique multiEntry =
     \<lparr>i_name = name, i_originalName = name, i_keyPath = KPString [],
      i_multiEntry = multiEntry, i_unique = unique, i_deleted = False,
      i_pendingDelete = False, i_pendingCreate = False, i_recreated = False,
      i_pendingName = None, i_objectStore = 0\<rparr>"

text \<open>A row of the table of store \<^verbatim>\<open>s\<close>: key, value and the column of index \<^verbatim>\<open>a\<close>.\<close>

definition ex_row :: "string \<Rightarrow> string \<Rightarrow> string option \<Rightarrow> row" where
  "ex_row k v a = (\<lambda>c. if c = ''key'' then Some k else if c = ''value'' then Some v
                       else if c = ex_quote ''_a'' then a else None)"

text \<open>
  A version-change transaction, active, at address 0, with the store \<^verbatim>\<open>s\<close> at address 0
  as its store handle. The store has the index \<^verbatim>\<open>a\<close>: the object at address 0 is in
  \<^verbatim>\<open>__indexes\<close>, the object at address 1 is the handle \<^verbatim>\<open>store.index('a')\<close> returned.
  The table has the given rows.
\<close>

definition ex_state :: "bool \<Rightarrow> bool \<Rightarrow> row list \<Rightarrow> nat state" where
  "ex_state unique multiEntry rows =
     \<lparr>h_indexes = (\<lambda>i. ex_index ''a'' unique multiEntry),
      h_stores = (\<lambda>s.
         \<lparr>s_name = ''s'', s_pendingName = None, s_deleted = False, s_pendingDelete = False,
          s_pendingCreate = False, s_autoIncrement = False, s_indexNames = [''a''],
          s_indexes = [''a'' \<mapsto> 0], s_indexHandles = [''a'' \<mapsto> 1],
          s_transaction = Some 0, s_cursors = []\<rparr>),
      h_txs = (\<lambda>t.
         \<lparr>t_mode = VersionChange, t_active = True, t_errored = False,
          t_storeHandles = [''s'' \<mapsto> 0], t_queue = []\<rparr>),
      h_next = 2,
      h_db =
        \<lparr>d_tables = [ex_quote ''Ss'' \<mapsto>
            \<lparr>tb_cols = [''key'', ''value'', ex_quote ''_a''], tb_rows = rows\<rparr>],
         d_sys = [''s'' \<mapsto> [(''a'',
            \<lparr>ip_columnName = ''a'', ip_keyPath = KPString [], ip_unique = unique,
             ip_multiEntry = multiEntry, ip_deleted = False\<rparr>)]],
         d_sqlIndexes = []\<rparr>\<rparr>"

text \<open>
  The same store after \<^verbatim>\<open>deleteObjectStore\<close> was called on it in the transaction: the
  store is pending delete, its indexes are as they were.
\<close>

definition ex_state_storeDeleted :: "nat state" where
  "ex_state_storeDeleted =
     (ex_state False False [])\<lparr>h_stores := (\<lambda>s.
         (h_stores (ex_state False False []) s)\<lparr>s_pendingDelete := True\<rparr>)\<rparr>"


text \<open>
  What \<^verbatim>\<open>buildFetchIndexDataSQL\<close> compiles in the example world for \<^verbatim>\<open>get(7)\<close> on the
  index \<^verbatim>\<open>a\<close>, and for \<^verbatim>\<open>count()\<close> when \<^verbatim>\<open>a\<close> is a multi-entry index.
\<close>

definition ex_get_args :: "nat fetchArgs" where
  "ex_get_args =
     \<lparr>fa_unboundedDisallowed = True, fa_index = 1, fa_hasKey = True, fa_range = JAtom 7,
      fa_opType = OpValue, fa_multiChecks = False,
      fa_sql = [Tok ''SELECT'', Tok (ex_quote ''value''), Tok ''FROM'', Tok (ex_quote ''Ss''),
                Tok ''WHERE'', Tok (ex_quote ''_a''), Tok ''NOT NULL'', Tok ''ORDER BY '',
                Tok (ex_quote ''_a'')],
      fa_sqlValues = []\<rparr>"




text \<open>
  Renaming the index \<^verbatim>\<open>a\<close> to \<^verbatim>\<open>b\<close> through its handle, the table holding one record:
  the state when the setter has returned, and the step it has queued.
\<close>

definition ex_state_renamed :: "nat state" where
  "ex_state_renamed =
     snd (IDBIndex_setName ex_env 1 ''b'' (ex_state False False [ex_row ''k1'' ''7'' (Some ''7'')]))"

definition ex_renameStep :: "nat queued" where
  "ex_renameStep =
     QRenameIndex 0 ''a'' ''b'' [(''key'', ''BLOB PRIMARY KEY''), (''value'', ''BLOB'')] ''s''
       (Some (0, 0))"





text \<open>What the database holds: the values of a column of a table, and the names in the
  persisted index list of a store.\<close>

definition columnValues :: "database \<Rightarrow> string \<Rightarrow> string \<Rightarrow> string option list option" where
  "columnValues db t c = map_option (\<lambda>tb. map (\<lambda>r. r c) (tb_rows tb)) (d_tables db t)"

definition persistedNames :: "database \<Rightarrow> string \<Rightarrow> string list option" where
  "persistedNames db s = map_option (map fst) (d_sys db s)"

section \<open>Every state check answers with \<open>InvalidStateError\<close> or passes\<close>



section \<open>A missing key\<close>






section \<open>What a fetch resolves to\<close>

lemma executeFetchIndexData_sent:
  "executeFetchIndexData env count fa st =
     (case runSelect env (sentSQL count fa) (fa_sqlValues fa) (h_db st) of
        Inl err \<Rightarrow> Failure err
      | Inr rows \<Rightarrow> fetchedRows env fa (h_indexes st (fa_index fa)) rows)"
  by (simp add: executeFetchIndexData_def sentSQL_def Let_def)

text \<open>The arguments of the queued step are the ones the method was called with.\<close>

lemma buildFetch_args:
  assumes "buildFetchIndexDataSQL env st nullDisallowed index rng opType multiChecks = Inr fa"
  shows "fa_unboundedDisallowed fa = nullDisallowed \<and> fa_index fa = index \<and>
         fa_hasKey fa = (nullDisallowed \<or> \<not> isNullish rng) \<and> fa_range fa = rng \<and>
         fa_opType fa = opType \<and> fa_multiChecks fa = multiChecks"
  using assms
  by (auto simp: buildFetchIndexDataSQL_def Let_def
      split: if_splits jsval.splits sum.splits prod.splits)

lemma multiEntryRows_miss:
  assumes "\<forall>r \<in> set rows. \<exists>rowKey. Key_decode env (r keyCol) = Some rowKey \<and>
              multiEntryRow env fa encodedKey (r keyCol) rowKey = Some (False, 0)"
  shows "multiEntryRows env fa keyCol encodedKey rows records recordCount =
           Some (records, recordCount)"
  using assms by (induction rows) auto

lemma fetchedRows_none:
  assumes "matchesNoRows env fa index rows"
  shows "fetchedRows env fa index rows =
           Success (if fa_opType fa = OpCount then Count 0
                    else Resolved (if fa_unboundedDisallowed fa then JUndefined else JArray []))"
proof (cases "i_multiEntry index")
  case True
  with assms obtain encodedKey where e: "Key_encode env (fa_range fa) True = Inr encodedKey"
    and m: "\<forall>r \<in> set rows. \<exists>rowKey.
              Key_decode env (r (escapeIndexNameForSQLKeyColumn env (i_name index))) = Some rowKey \<and>
              multiEntryRow env fa encodedKey
                (r (escapeIndexNameForSQLKeyColumn env (i_name index))) rowKey = Some (False, 0)"
    by (auto simp: matchesNoRows_def)
  show ?thesis
    using True e multiEntryRows_miss[OF m, of "[]" 0]
    by (simp add: fetchedRows_def)
next
  case False
  with assms have "rows = []" by (simp add: matchesNoRows_def)
  with False show ?thesis by (simp add: fetchedRows_def)
qed

text \<open>
  C4. A queued fetch whose query matches no rows calls \<^verbatim>\<open>success\<close> with \<^verbatim>\<open>undefined\<close>
  for \<^verbatim>\<open>get\<close> and \<^verbatim>\<open>getKey\<close> (\<^verbatim>\<open>nullDisallowed\<close>, operation \<^verbatim>\<open>value\<close> or \<^verbatim>\<open>key\<close>), with
  the empty array for \<^verbatim>\<open>getAll\<close> and \<^verbatim>\<open>getAllKeys\<close> (not \<^verbatim>\<open>nullDisallowed\<close>), and with
  \<open>0\<close> for \<^verbatim>\<open>count\<close>. \<open>fa\<close> is what \<^verbatim>\<open>__fetchIndexData\<close> compiled at the call; the step
  runs in a later state \<open>st\<close>.
\<close>

theorem empty_result_policy:
  assumes build: "buildFetchIndexDataSQL env st0 nullDisallowed me rng opType False = Inr fa"
    and rows: "runSelect env (sentSQL count fa) (fa_sqlValues fa) (h_db st) = Inr rows"
    and none: "matchesNoRows env fa (h_indexes st me) rows"
  shows "executeFetchIndexData env count fa st =
           Success (case opType of
                      OpCount \<Rightarrow> Count 0
                    | _ \<Rightarrow> Resolved (if nullDisallowed then JUndefined else JArray []))"
proof -
  from buildFetch_args[OF build] have a: "fa_unboundedDisallowed fa = nullDisallowed"
    "fa_index fa = me" "fa_opType fa = opType" by simp_all
  show ?thesis
    using rows fetchedRows_none[OF none] a
    by (cases opType) (simp_all add: executeFetchIndexData_sent)
qed

lemma ex_get_build:
  "buildFetchIndexDataSQL ex_env (ex_state False False rows) True 1 (JAtom 7) OpValue False =
     Inr ex_get_args"
  by (simp add: buildFetchIndexDataSQL_def ex_get_args_def ex_env_def ex_state_def ex_index_def
      store_currentName_def Let_def)

theorem empty_result_policy_witness:
  "buildFetchIndexDataSQL ex_env (ex_state False False []) True 1 (JAtom 7) OpValue False =
     Inr ex_get_args \<and>
   runSelect ex_env (sentSQL None ex_get_args) (fa_sqlValues ex_get_args)
     (h_db (ex_state False False [])) = Inr [] \<and>
   matchesNoRows ex_env ex_get_args (h_indexes (ex_state False False []) 1) [] \<and>
   executeFetchIndexData ex_env None ex_get_args (ex_state False False []) =
     Success (Resolved JUndefined)"
proof -
  have b: "buildFetchIndexDataSQL ex_env (ex_state False False []) True 1 (JAtom 7) OpValue False =
     Inr ex_get_args" by (rule ex_get_build)
  have r: "runSelect ex_env (sentSQL None ex_get_args) (fa_sqlValues ex_get_args)
     (h_db (ex_state False False [])) = Inr []"
    by (simp add: ex_env_def ex_runSelect_def ex_state_def)
  have n: "matchesNoRows ex_env ex_get_args (h_indexes (ex_state False False []) 1) []"
    by (simp add: matchesNoRows_def ex_state_def ex_index_def)
  from empty_result_policy[OF b r n] b r n show ?thesis by simp
qed

section \<open>Counting a multi-entry index without a filter\<close>








section \<open>Renaming: the checks\<close>


text \<open>
  What the assertions test: the transaction of the store is a version-change
  transaction and active, and the index is neither deleted nor pending delete (nor
  pending create on an errored transaction). The flags of the store are not among them.
\<close>

lemma renameChecksPass_iff:
  "renameChecksPass st me \<longleftrightarrow>
     (\<exists>t. s_transaction (h_stores st (i_objectStore (h_indexes st me))) = Some t \<and>
          t_mode (h_txs st t) = VersionChange \<and> t_active (h_txs st t) \<and>
          \<not> (i_pendingCreate (h_indexes st me) \<and> t_errored (h_txs st t))) \<and>
     \<not> i_deleted (h_indexes st me) \<and> \<not> i_pendingDelete (h_indexes st me)"
  by (auto simp: renameChecksPass_def IDBTransaction_assertVersionChange_def
      IDBTransaction_assertActive_def IDBIndex_invalidStateIfDeleted_def
      invalidStateIfDeleted_of_index_def IDBObjectStore_invalidStateIfDeleted_def
      store_txErrored_def split: option.splits)

lemma ex_renameChecksPass: "renameChecksPass (ex_state u m rows) 1"
  by (simp add: renameChecksPass_def ex_state_def ex_index_def IDBIndex_invalidStateIfDeleted_def
      invalidStateIfDeleted_of_index_def IDBObjectStore_invalidStateIfDeleted_def
      IDBTransaction_assertActive_def IDBTransaction_assertVersionChange_def store_txErrored_def)

text \<open>
  C9. Setting the name of an index to the name it has, the assertions of the setter
  passing, returns without any effect: the state afterwards is the state before, so
  the index map, the \<^verbatim>\<open>indexNames\<close> list, \<^verbatim>\<open>__pendingName\<close>, the database and the queue of
  the transaction are all unchanged.
\<close>

theorem setName_same_name:
  assumes "renameChecksPass st me"
  shows "IDBIndex_setName env me (i_name (h_indexes st me)) st = (Inr (), st)"
  using assms by (simp add: IDBIndex_setName_def renameChecksPass_def Let_def)

theorem setName_same_name_witness:
  "renameChecksPass (ex_state False False []) 1 \<and>
   i_name (h_indexes (ex_state False False []) 1) = ''a'' \<and>
   IDBIndex_setName ex_env 1 ''a'' (ex_state False False []) = (Inr (), ex_state False False [])"
proof -
  have h: "renameChecksPass (ex_state False False []) 1" by (rule ex_renameChecksPass)
  have n: "i_name (h_indexes (ex_state False False []) 1) = ''a''"
    by (simp add: ex_state_def ex_index_def)
  from setName_same_name[OF h, of ex_env] h n show ?thesis by simp
qed



text \<open>
  C7, at a failing input. The store \<^verbatim>\<open>s\<close> is pending delete, the check a fetch makes
  on the store answers \<open>InvalidStateError\<close>; the setter, which hands the index itself to
  that check, renames the index \<^verbatim>\<open>a\<close> of this store to \<^verbatim>\<open>b\<close> and queues the rename.
\<close>

theorem rename_in_deleted_store:
  "s_pendingDelete (h_stores ex_state_storeDeleted 0) \<and>
   i_objectStore (h_indexes ex_state_storeDeleted 1) = 0 \<and>
   invalidStateIfDeleted_of_store ex_state_storeDeleted 0 = Inl InvalidStateError \<and>
   fst (IDBIndex_setName ex_env 1 ''b'' ex_state_storeDeleted) = Inr () \<and>
   i_name (h_indexes (snd (IDBIndex_setName ex_env 1 ''b'' ex_state_storeDeleted)) 1) = ''b'' \<and>
   s_indexNames (h_stores (snd (IDBIndex_setName ex_env 1 ''b'' ex_state_storeDeleted)) 0) = [''b''] \<and>
   length (t_queue (h_txs (snd (IDBIndex_setName ex_env 1 ''b'' ex_state_storeDeleted)) 0)) = 1"
  by code_simp

section \<open>Renaming: the effect\<close>

text \<open>
  A rename that passes the checks, to a new name no live descriptor has, with the store
  handle and the index handle in place: when the setter returns, the index has the new
  name and \<^verbatim>\<open>__pendingName\<close> is the old one, the index map and \<^verbatim>\<open>indexNames\<close> of the store
  have the new name for the old, the index handle has the new name and is registered
  under it, and one step has joined the queue; the database is untouched.
\<close>

lemma setName_renames:
  assumes pass: "renameChecksPass st me"
    and new: "newName \<noteq> i_name (h_indexes st me)"
    and free: "case s_indexes (h_stores st (i_objectStore (h_indexes st me))) newName of
                 None \<Rightarrow> True
               | Some other \<Rightarrow> i_deleted (h_indexes st other) \<or> i_pendingDelete (h_indexes st other)"
    and tx: "s_transaction (h_stores st (i_objectStore (h_indexes st me))) = Some t"
    and sh: "t_storeHandles (h_txs st t) (s_name (h_stores st (i_objectStore (h_indexes st me)))) =
               Some storeHandle"
    and ih: "s_indexHandles (h_stores st storeHandle) (i_name (h_indexes st me)) = Some oldIndexHandle"
  shows "\<exists>st1 q. IDBIndex_setName env me newName st = (Inr (), st1) \<and>
           i_name (h_indexes st1 me) = newName \<and>
           i_pendingName (h_indexes st1 me) = Some (i_name (h_indexes st me)) \<and>
           s_indexes (h_stores st1 (i_objectStore (h_indexes st me))) newName = Some me \<and>
           s_indexes (h_stores st1 (i_objectStore (h_indexes st me))) (i_name (h_indexes st me)) = None \<and>
           s_indexNames (h_stores st1 (i_objectStore (h_indexes st me))) =
             spliceName (s_indexNames (h_stores st (i_objectStore (h_indexes st me))))
               (i_name (h_indexes st me)) newName \<and>
           i_name (h_indexes st1 oldIndexHandle) = newName \<and>
           s_indexHandles (h_stores st1 storeHandle) newName = Some oldIndexHandle \<and>
           t_queue (h_txs st1 t) = t_queue (h_txs st t) @ [q] \<and>
           h_db st1 = h_db st"
  using assms
  by (auto simp: IDBIndex_setName_def renameChecksPass_def Let_def IDBIndex_renameIndex_def
      enqueue_def split: option.splits)

text \<open>The step that has joined the queue is the \<^verbatim>\<open>renameIndex\<close> of \<^verbatim>\<open>__renameIndex\<close>, with
  the callback of the setter.\<close>

lemma setName_queues:
  assumes pass: "renameChecksPass st me"
    and new: "newName \<noteq> i_name (h_indexes st me)"
    and free: "case s_indexes (h_stores st (i_objectStore (h_indexes st me))) newName of
                 None \<Rightarrow> True
               | Some other \<Rightarrow> i_deleted (h_indexes st other) \<or> i_pendingDelete (h_indexes st other)"
    and tx: "s_transaction (h_stores st (i_objectStore (h_indexes st me))) = Some t"
    and sh: "t_storeHandles (h_txs st t) (s_name (h_stores st (i_objectStore (h_indexes st me)))) =
               Some storeHandle"
    and ih: "s_indexHandles (h_stores st storeHandle) (i_name (h_indexes st me)) = Some oldIndexHandle"
  shows "\<exists>st1 cols. IDBIndex_setName env me newName st = (Inr (), st1) \<and>
           i_pendingName (h_indexes st1 me) = Some (i_name (h_indexes st me)) \<and>
           t_queue (h_txs st1 t) = t_queue (h_txs st t) @
             [QRenameIndex (i_objectStore (h_indexes st me)) (i_name (h_indexes st me)) newName cols
                (store_currentName (h_stores st (i_objectStore (h_indexes st me))))
                (Some (i_objectStore (h_indexes st me), storeHandle))]"
  using assms
  by (auto simp: IDBIndex_setName_def renameChecksPass_def Let_def IDBIndex_renameIndex_def
      enqueue_def store_currentName_def split: option.splits)

text \<open>The queued step changes no index object, whatever its outcome.\<close>

lemma finishRename_indexes: "h_indexes (snd (finishRename env cb st)) = h_indexes st"
  by (auto simp: finishRename_def split: option.splits outcome.splits prod.splits)

lemma renameIndex_step_indexes:
  "h_indexes (snd (renameIndex_step env store oldName newName cols storeName cb st)) = h_indexes st"
  by (auto simp: renameIndex_step_def Let_def finishRename_indexes
      split: sum.splits prod.splits)

lemma runStep_rename_indexes:
  "h_indexes (snd (runStep env (QRenameIndex store oldName newName cols storeName cb) st)) =
     h_indexes st"
proof (cases "renameIndex_step env store oldName newName cols storeName cb st")
  case (Pair r st1)
  with renameIndex_step_indexes[of env store oldName newName cols storeName cb st]
  show ?thesis by simp
qed

text \<open>
  So after any such rename, whatever the queued step does, \<^verbatim>\<open>__pendingName\<close> of the index
  is still the old name.
\<close>

lemma rename_leaves_pendingName:
  assumes pass: "renameChecksPass st me"
    and new: "newName \<noteq> i_name (h_indexes st me)"
    and free: "case s_indexes (h_stores st (i_objectStore (h_indexes st me))) newName of
                 None \<Rightarrow> True
               | Some other \<Rightarrow> i_deleted (h_indexes st other) \<or> i_pendingDelete (h_indexes st other)"
    and tx: "s_transaction (h_stores st (i_objectStore (h_indexes st me))) = Some t"
    and sh: "t_storeHandles (h_txs st t) (s_name (h_stores st (i_objectStore (h_indexes st me)))) =
               Some storeHandle"
    and ih: "s_indexHandles (h_stores st storeHandle) (i_name (h_indexes st me)) = Some oldIndexHandle"
  shows "\<exists>st1 q. IDBIndex_setName env me newName st = (Inr (), st1) \<and>
           t_queue (h_txs st1 t) = t_queue (h_txs st t) @ [q] \<and>
           i_pendingName (h_indexes (snd (runStep env q st1)) me) = Some (i_name (h_indexes st me))"
proof -
  from setName_queues[OF assms, of env] obtain st1 cols where
    r: "IDBIndex_setName env me newName st = (Inr (), st1)" and
    p: "i_pendingName (h_indexes st1 me) = Some (i_name (h_indexes st me))" and
    q: "t_queue (h_txs st1 t) = t_queue (h_txs st t) @
             [QRenameIndex (i_objectStore (h_indexes st me)) (i_name (h_indexes st me)) newName cols
                (store_currentName (h_stores st (i_objectStore (h_indexes st me))))
                (Some (i_objectStore (h_indexes st me), storeHandle))]"
    by blast
  let ?q = "QRenameIndex (i_objectStore (h_indexes st me)) (i_name (h_indexes st me)) newName cols
                (store_currentName (h_stores st (i_objectStore (h_indexes st me))))
                (Some (i_objectStore (h_indexes st me), storeHandle))"
  have "h_indexes (snd (runStep env ?q st1)) = h_indexes st1"
    by (rule runStep_rename_indexes)
  with p have "i_pendingName (h_indexes (snd (runStep env ?q st1)) me) =
                 Some (i_name (h_indexes st me))"
    by (simp only:)
  with r q show ?thesis by blast
qed

text \<open>
  C3, at a failing input. The index \<^verbatim>\<open>a\<close> is renamed to \<^verbatim>\<open>b\<close> through its handle. The
  setter returns with \<^verbatim>\<open>__pendingName\<close> set to \<^verbatim>\<open>a\<close> and the rename queued; the step
  succeeds, the column is now that of \<^verbatim>\<open>b\<close> and the persisted index list names \<^verbatim>\<open>b\<close>;
  \<^verbatim>\<open>__pendingName\<close> of the index is still \<^verbatim>\<open>a\<close>, and so is its \<^verbatim>\<open>__currentName\<close>.
\<close>

theorem pendingName_not_cleared:
  "fst (IDBIndex_setName ex_env 1 ''b'' (ex_state False False [ex_row ''k1'' ''7'' (Some ''7'')])) =
     Inr () \<and>
   i_pendingName (h_indexes ex_state_renamed 1) = Some ''a'' \<and>
   t_queue (h_txs ex_state_renamed 0) = [ex_renameStep] \<and>
   fst (runStep ex_env ex_renameStep ex_state_renamed) = Structural (Success ()) \<and>
   columnValues (h_db (snd (runStep ex_env ex_renameStep ex_state_renamed)))
     (ex_quote ''Ss'') (ex_quote ''_b'') = Some [Some ''7''] \<and>
   persistedNames (h_db (snd (runStep ex_env ex_renameStep ex_state_renamed))) ''s'' = Some [''b''] \<and>
   i_pendingName (h_indexes (snd (runStep ex_env ex_renameStep ex_state_renamed)) 1) = Some ''a'' \<and>
   index_currentName (h_indexes (snd (runStep ex_env ex_renameStep ex_state_renamed)) 1) = ''a''"
  by code_simp

section \<open>Creating: records without a key\<close>






section \<open>Creating: a unique index over duplicate keys\<close>














lemma buildIndexList_db [simp]:
  "buildIndexList (st\<lparr>h_db := d\<rparr>) ixs ns acc = buildIndexList st ixs ns acc"
  by (induction ns arbitrary: acc) (auto split: option.splits)








end
